theory Spec2Isabelle
  imports Main "HOL-Library.Sublist"
begin

section \<open>The tutorial index route\<close>

text \<open>
  The route file \<^verbatim>\<open>src/routes/docs/tutorials/nextjs/+page.ts\<close> is
  \<^verbatim>\<open>
  import { redirect } from '@sveltejs/kit';
  import type { PageLoad } from './$types';

  export const load: PageLoad = async () => {
          throw redirect(303, '/docs/tutorials/nextjs/step-1');
  };
  \<close>
  The handler is an asynchronous arrow function that declares no parameter and whose
  body is one \<^verbatim>\<open>throw\<close> statement.
\<close>

subsection \<open>Values of the framework\<close>

text \<open>
  The object a redirect carries: its two fields are the HTTP status and the location.
\<close>

datatype redirect_obj = Redirect (status: int) (location: string)

text \<open>What a handler body can throw: the redirect object, or an error with its message.\<close>

datatype thrown = Thrown_Redirect redirect_obj | Thrown_Error string

text \<open>
  The events a handler body could emit towards the process it runs in. The body of
  \<^verbatim>\<open>load\<close> emits none of them; they are here so that its silence is a
  statement about the model and not a convention.
\<close>

datatype io_event = Network_call string | File_read string | State_write string

text \<open>
  The body of an asynchronous function, as the sequence of what it does: it returns a
  value, throws, suspends at an \<^verbatim>\<open>await\<close> before going on, or performs an
  input/output event before going on.
\<close>

datatype 'a body =
    Return 'a
  | Throw thrown
  | Await "'a body"
  | Perform io_event "'a body"

text \<open>
  The promise an asynchronous function hands to its caller. The body runs synchronously
  up to its first \<^verbatim>\<open>await\<close>: a body that returns or throws before any
  \<^verbatim>\<open>await\<close> gives a promise that is already settled, and a body that reaches an
  \<^verbatim>\<open>await\<close> gives a pending one, holding the rest of the body.
\<close>

datatype 'a promise = Fulfilled 'a | Rejected thrown | Pending "'a body"

fun async_call :: "'a body \<Rightarrow> 'a promise" where
  "async_call (Return v) = Fulfilled v"
| "async_call (Throw t) = Rejected t"
| "async_call (Await k) = Pending k"
| "async_call (Perform ev k) = async_call k"

fun suspension_points :: "'a body \<Rightarrow> nat" where
  "suspension_points (Return v) = 0"
| "suspension_points (Throw t) = 0"
| "suspension_points (Await k) = Suc (suspension_points k)"
| "suspension_points (Perform ev k) = suspension_points k"

fun effects_of :: "'a body \<Rightarrow> io_event list" where
  "effects_of (Return v) = []"
| "effects_of (Throw t) = []"
| "effects_of (Await k) = effects_of k"
| "effects_of (Perform ev k) = ev # effects_of k"

text \<open>
  \<^verbatim>\<open>redirect\<close> is imported from the framework package, which is not part of the
  repository. It builds the redirect object from a status and a location, and refuses a
  status outside 300..308 by throwing an error.
\<close>

definition redirect :: "int \<Rightarrow> string \<Rightarrow> thrown + redirect_obj" where
  "redirect st loc =
     (if st < 300 \<or> st > 308 then Inl (Thrown_Error ''Invalid status code'')
      else Inr (Redirect st loc))"

text \<open>
  The argument of a page load handler. The type \<^verbatim>\<open>PageLoad\<close> comes from the
  generated \<^verbatim>\<open>./$types\<close>; the fields kept here are the ones that identify the
  page being loaded. The value a handler returns to the page is a list of named
  properties.
\<close>

record load_event =
  url_pathname :: string
  route_id :: string
  params :: "(string \<times> string) list"

type_synonym page_data = "(string \<times> string) list"

subsection \<open>The handler\<close>

text \<open>
  The body evaluates the call of \<^verbatim>\<open>redirect\<close> first: if that call throws, its
  error leaves the body; otherwise the \<^verbatim>\<open>throw\<close> statement throws the object the
  call returned. The arrow function has no parameter, so the event it is called with
  does not occur in the body.
\<close>

definition load_body :: "load_event \<Rightarrow> page_data body" where
  "load_body event =
     (case redirect 303 ''/docs/tutorials/nextjs/step-1'' of
        Inl err \<Rightarrow> Throw err
      | Inr r \<Rightarrow> Throw (Thrown_Redirect r))"

definition load :: "load_event \<Rightarrow> page_data promise" where
  "load event = async_call (load_body event)"

subsection \<open>Status classification\<close>

text \<open>
  The specification classifies a redirect as temporary or permanent and reads status 303
  as temporary and status 301 as permanent. It names no other status.
\<close>

datatype classification = Temporary | Permanent

definition classify :: "int \<Rightarrow> classification option" where
  "classify st =
     (if st = 303 then Some Temporary
      else if st = 301 then Some Permanent
      else None)"

subsection \<open>An invocation inside a process\<close>

text \<open>
  A process is observed through the log of the events its handlers have emitted so far.
  An invocation of the handler hands back the promise and leaves the log extended by
  whatever the body emitted.
\<close>

definition invoke :: "load_event \<Rightarrow> io_event list \<Rightarrow> page_data promise \<times> io_event list" where
  "invoke event log = (load event, log @ effects_of (load_body event))"

subsection \<open>The page load as a transition\<close>

text \<open>
  The rendering pipeline starts a page load in the state \<open>Loading\<close>, calls the handler
  and reads its promise: a fulfilled promise renders the page with the returned data, a
  promise rejected with a redirect object makes the pipeline answer with that redirect,
  a promise rejected with an error fails the load, and a pending promise gives no
  transition yet. The three other states are terminal.
\<close>

datatype nav_state =
    Loading
  | Redirected redirect_obj
  | Rendered page_data
  | Failed string

fun settle :: "page_data promise \<Rightarrow> nav_state option" where
  "settle (Fulfilled d) = Some (Rendered d)"
| "settle (Rejected (Thrown_Redirect r)) = Some (Redirected r)"
| "settle (Rejected (Thrown_Error m)) = Some (Failed m)"
| "settle (Pending k) = None"

fun step :: "load_event \<Rightarrow> nav_state \<Rightarrow> nav_state option" where
  "step event Loading = settle (load event)"
| "step event (Redirected r) = None"
| "step event (Rendered d) = None"
| "step event (Failed m) = None"

subsection \<open>The redirect rules of the repository\<close>

text \<open>
  The framework routes by directory: the handler in
  \<^verbatim>\<open>src/routes/docs/tutorials/nextjs/+page.ts\<close> serves the route
  \<^verbatim>\<open>/docs/tutorials/nextjs\<close>. A redirect rule is read off a handler by loading its
  route: a handler whose promise is rejected with a redirect object gives the rule from
  its route to the object's location; any other handler gives no rule.
\<close>

record redirect_rule =
  source :: string
  target :: string
  rule_status :: int

definition source_route :: string where
  "source_route = ''/docs/tutorials/nextjs''"

definition event_for :: "string \<Rightarrow> load_event" where
  "event_for route = \<lparr>url_pathname = route, route_id = route, params = []\<rparr>"

fun rules_of_handler :: "string \<Rightarrow> page_data promise \<Rightarrow> redirect_rule list" where
  "rules_of_handler route (Rejected (Thrown_Redirect r)) =
     [\<lparr>source = route, target = location r, rule_status = status r\<rparr>]"
| "rules_of_handler route (Rejected (Thrown_Error m)) = []"
| "rules_of_handler route (Fulfilled d) = []"
| "rules_of_handler route (Pending k) = []"

definition redirect_rules :: "redirect_rule list" where
  "redirect_rules = rules_of_handler source_route (load (event_for source_route))"

text \<open>A route as the list of its segments, the way the router reads it.\<close>

fun split_on :: "char \<Rightarrow> string \<Rightarrow> string list" where
  "split_on c [] = [[]]"
| "split_on c (x # xs) =
     (if x = c then [] # split_on c xs
      else (case split_on c xs of
              [] \<Rightarrow> [[x]]
            | s # ss \<Rightarrow> (x # s) # ss))"

definition path_segments :: "string \<Rightarrow> string list" where
  "path_segments p = filter (\<lambda>s. s \<noteq> []) (split_on (CHR ''/'') p)"

section \<open>The blog post document\<close>

text \<open>
  The file \<^verbatim>\<open>src/routes/blog/post/how-to-optimize-your-appwrite-project/+page.markdoc\<close>
  is data: a line \<^verbatim>\<open>---\<close>, nine header lines, a second line \<^verbatim>\<open>---\<close>, and
  the text of the post. The header lines are lines 2 to 10 of the file.
\<close>

definition front_matter :: "string list" where
  "front_matter =
     [''layout: post'',
      ''title: How to optimize your Appwrite project for cost and performance'',
      ''description: Learn how to optimize your Appwrite project, manage resource usage, costs, and ensure smooth performance as yout application scales.'',
      ''date: 2024-09-20'',
      ''cover: /images/blog/how-to-optimize-your-appwrite-project/cover.png'',
      ''timeToRead: 12'',
      ''author: ebenezer-don'',
      ''category: product'',
      ''featured: false'']"

text \<open>
  The text of the post opens with lines 12 to 17 of the file: two paragraphs set off by
  empty lines, then the first heading.
\<close>

definition body_opening :: "string list" where
  "body_opening =
     [[],
      ''As your Appwrite project scales, performance and resource management become critical, not just to keep your app running smoothly, but also to avoid unexpected usage spikes. While Appwrite is designed to scale effortlessly, it's important to proactively optimize your usage so you don't reach resource limits prematurely. Effective optimization helps reduce costs, improves performance, and enhances user experience without compromising on functionality.'',
      [],
      ''This guide provides a detailed overview of techniques to optimize your Appwrite project, covering API request management, caching strategies, file compression, image optimization, and other methods to ensure your app performs well while staying within your desired resource limits.'',
      [],
      ''# 1. Reducing API requests: Smart querying and consolidation'']"

text \<open>
  The whole file, with the lines after the first heading left as a parameter: what is
  shown about the document holds whatever those lines are.
\<close>

definition page_markdoc :: "string list \<Rightarrow> string list" where
  "page_markdoc rest = ''---'' # front_matter @ ''---'' # body_opening @ rest"

text \<open>
  The reading of such a file by the rendering collaborator, which is outside the
  repository, as the specification describes it: a header block between two
  \<^verbatim>\<open>---\<close> lines, followed by the body. The key of a header line is what stands
  before its first colon.
\<close>

fun split_front_matter :: "string list \<Rightarrow> (string list \<times> string list) option" where
  "split_front_matter [] = None"
| "split_front_matter (l # ls) =
     (if l = ''---'' then
        (case dropWhile (\<lambda>x. x \<noteq> ''---'') ls of
           [] \<Rightarrow> None
         | d # body \<Rightarrow> Some (takeWhile (\<lambda>x. x \<noteq> ''---'') ls, body))
      else None)"

definition key_of :: "string \<Rightarrow> string" where
  "key_of line = takeWhile (\<lambda>c. c \<noteq> CHR '':'') line"

definition recognized_keys :: "string list" where
  "recognized_keys =
     [''layout'', ''title'', ''description'', ''date'', ''cover'', ''timeToRead'',
      ''author'', ''category'', ''featured'']"

section \<open>Properties of the handler\<close>

lemma redirect_303:
  "redirect 303 loc = Inr (Redirect 303 loc)"
  by (simp add: redirect_def)

lemma load_body_throws:
  "load_body event = Throw (Thrown_Redirect (Redirect 303 ''/docs/tutorials/nextjs/step-1''))"
  by (simp add: load_body_def redirect_303)

lemma load_rejects:
  "load event = Rejected (Thrown_Redirect (Redirect 303 ''/docs/tutorials/nextjs/step-1''))"
  by (simp add: load_def load_body_throws)

section \<open>Properties of the document\<close>

lemma split_page_markdoc:
  "split_front_matter (page_markdoc rest) = Some (front_matter, body_opening @ rest)"
  by (simp add: page_markdoc_def front_matter_def)

lemma front_matter_keys:
  "map key_of front_matter = recognized_keys"
  by (simp add: front_matter_def key_of_def recognized_keys_def)

section \<open>The specified properties\<close>

text \<open>
  C1. For every invocation of the load handler of the tutorial index route, the redirect
  signal it produces has the destination route \<^verbatim>\<open>/docs/tutorials/nextjs/step-1\<close> and
  the status 303, which is classified Temporary.
\<close>

theorem load_redirects_to_first_step:
  "\<exists>r. load event = Rejected (Thrown_Redirect r)
     \<and> location r = ''/docs/tutorials/nextjs/step-1''
     \<and> status r = 303
     \<and> classify (status r) = Some Temporary"
  by (simp add: load_rejects classify_def)

text \<open>
  C2. The load handler is pure and deterministic: its body emits no network call, no file
  read and no state write, an invocation leaves the log of the process as it found it,
  and a second invocation in the same process hands back the same promise as the first.
\<close>

theorem load_pure_deterministic:
  "effects_of (load_body event1) = []
     \<and> invoke event1 log = (load event1, log)
     \<and> fst (invoke event2 (snd (invoke event1 log))) = fst (invoke event1 log)
     \<and> snd (invoke event2 (snd (invoke event1 log))) = log"
  by (simp add: invoke_def load_body_throws load_rejects)

text \<open>
  C3. No redirect rule of the repository redirects a route to itself: the repository has
  the single rule from \<^verbatim>\<open>/docs/tutorials/nextjs\<close> to
  \<^verbatim>\<open>/docs/tutorials/nextjs/step-1\<close>, and the target of every rule differs from its
  source.
\<close>

theorem no_self_redirect:
  "redirect_rules =
     [\<lparr>source = ''/docs/tutorials/nextjs'',
       target = ''/docs/tutorials/nextjs/step-1'',
       rule_status = 303\<rparr>]
     \<and> (\<forall>r \<in> set redirect_rules. target r \<noteq> source r)"
  by (simp add: redirect_rules_def load_rejects source_route_def)

theorem no_self_redirect_witness:
  "\<lparr>source = ''/docs/tutorials/nextjs'',
    target = ''/docs/tutorials/nextjs/step-1'',
    rule_status = 303\<rparr> \<in> set redirect_rules
     \<and> target \<lparr>source = ''/docs/tutorials/nextjs'',
                target = ''/docs/tutorials/nextjs/step-1'',
                rule_status = 303\<rparr>
       \<noteq> source \<lparr>source = ''/docs/tutorials/nextjs'',
                  target = ''/docs/tutorials/nextjs/step-1'',
                  rule_status = 303\<rparr>"
proof -
  let ?rule = "\<lparr>source = ''/docs/tutorials/nextjs'',
                target = ''/docs/tutorials/nextjs/step-1'',
                rule_status = 303\<rparr>"
  from no_self_redirect have rules: "redirect_rules = [?rule]"
    by (rule conjunct1)
  from no_self_redirect have all: "\<forall>r \<in> set redirect_rules. target r \<noteq> source r"
    by (rule conjunct2)
  have mem: "?rule \<in> set redirect_rules"
    unfolding rules by simp
  from all mem have "target ?rule \<noteq> source ?rule"
    by (rule bspec)
  with mem show ?thesis
    by (rule conjI)
qed

text \<open>
  C4. The load step is unconditional and cannot fail: the call of \<^verbatim>\<open>redirect\<close>
  in the body does not throw an error, the promise of the handler is never rejected with
  an error, and there is one redirect signal that every invocation produces.
\<close>

theorem load_cannot_fail:
  "redirect 303 ''/docs/tutorials/nextjs/step-1''
       = Inr (Redirect 303 ''/docs/tutorials/nextjs/step-1'')
     \<and> (\<forall>event m. load event \<noteq> Rejected (Thrown_Error m))
     \<and> (\<exists>r. \<forall>event. load event = Rejected (Thrown_Redirect r))"
  by (simp add: redirect_303 load_rejects)

text \<open>
  C5. The only terminal outcome of the page load is the state \<open>Redirected\<close>: from
  \<open>Loading\<close> the one transition leads to \<open>Redirected\<close> with the fixed redirect, that
  state has no successor (no retry), and the load never ends in \<open>Rendered\<close>, never in
  \<open>Failed\<close>, and never stays in \<open>Loading\<close>; the promise of the handler is never
  fulfilled.
\<close>

theorem load_only_outcome_redirected:
  "step event Loading = Some (Redirected (Redirect 303 ''/docs/tutorials/nextjs/step-1''))
     \<and> step event (Redirected (Redirect 303 ''/docs/tutorials/nextjs/step-1'')) = None
     \<and> (\<forall>d. step event Loading \<noteq> Some (Rendered d))
     \<and> (\<forall>m. step event Loading \<noteq> Some (Failed m))
     \<and> step event Loading \<noteq> Some Loading
     \<and> step event Loading \<noteq> None
     \<and> (\<forall>d. load event \<noteq> Fulfilled d)"
  by (simp add: load_rejects)

text \<open>
  C6. The handler is declared asynchronous but completes in one step: its body has no
  suspension point (no \<^verbatim>\<open>await\<close>) and performs no input/output event (no
  blocking operation), being the one \<^verbatim>\<open>throw\<close> of the redirect; the promise it
  hands back is never pending, and every invocation hands back a promise that is already
  settled, so that the page load makes its transition.
\<close>

theorem load_no_suspension:
  "suspension_points (load_body event) = 0
     \<and> effects_of (load_body event) = []
     \<and> load_body event = Throw (Thrown_Redirect (Redirect 303 ''/docs/tutorials/nextjs/step-1''))
     \<and> (\<forall>k. load event \<noteq> Pending k)
     \<and> (\<exists>t. load event = Rejected t)
     \<and> (\<exists>s. settle (load event) = Some s)"
  by (simp add: load_body_throws load_rejects)

text \<open>
  C8. The document splits into its front-matter header and a body that is not empty, and
  every key of the header is one of the recognized keys \<^verbatim>\<open>layout\<close>,
  \<^verbatim>\<open>title\<close>, \<^verbatim>\<open>description\<close>, \<^verbatim>\<open>date\<close>, \<^verbatim>\<open>cover\<close>,
  \<^verbatim>\<open>timeToRead\<close>, \<^verbatim>\<open>author\<close>, \<^verbatim>\<open>category\<close>, \<^verbatim>\<open>featured\<close>.
\<close>

theorem front_matter_keys_recognized:
  "split_front_matter (page_markdoc rest) = Some (front_matter, body_opening @ rest)
     \<and> body_opening @ rest \<noteq> []
     \<and> (\<forall>k \<in> set (map key_of front_matter). k \<in> set recognized_keys)"
proof (intro conjI)
  show "split_front_matter (page_markdoc rest) = Some (front_matter, body_opening @ rest)"
    by (rule split_page_markdoc)
  show "body_opening @ rest \<noteq> []"
    by (simp add: body_opening_def)
  show "\<forall>k \<in> set (map key_of front_matter). k \<in> set recognized_keys"
    by (simp add: front_matter_keys)
qed

theorem front_matter_keys_recognized_witness:
  "''timeToRead'' \<in> set (map key_of front_matter) \<and> ''timeToRead'' \<in> set recognized_keys"
proof -
  have mem: "''timeToRead'' \<in> set (map key_of front_matter)"
    by (simp add: front_matter_keys recognized_keys_def)
  from front_matter_keys_recognized [of "[]"]
  have "\<forall>k \<in> set (map key_of front_matter). k \<in> set recognized_keys"
    by blast
  from this mem have "''timeToRead'' \<in> set recognized_keys"
    by (rule bspec)
  with mem show ?thesis
    by (rule conjI)
qed

text \<open>
  C9. The handler ignores the event it is invoked with: for any two events, the bodies
  evaluate alike and the promises handed back are the same.
\<close>

theorem load_ignores_event:
  "load_body event1 = load_body event2 \<and> load event1 = load event2"
  by (simp add: load_body_throws load_rejects)

text \<open>
  C10. The destination route is the source route followed by \<^verbatim>\<open>/step-1\<close>: the
  source route is a proper prefix of it, its segments are those of the source route and
  one more, \<^verbatim>\<open>step-1\<close>, and it is therefore not the source route.
\<close>

theorem destination_extends_source:
  "\<exists>r. load event = Rejected (Thrown_Redirect r)
     \<and> location r = source_route @ ''/step-1''
     \<and> strict_prefix source_route (location r)
     \<and> path_segments (location r) = path_segments source_route @ [''step-1'']
     \<and> location r \<noteq> source_route"
  by (simp add: load_rejects source_route_def path_segments_def)

end
